theory Spec2Isabelle
  imports Main
begin

section \<open>Broadcast conversations of node-cowboy (lib/conversations/broadcast.js)\<close>

text \<open>
  The module is callback driven: \<open>request\<close> and the per-request operations \<open>_reply\<close>
  and \<open>_end\<close> of \<open>listen\<close> register callbacks with the pub/sub channel, a timer and
  the event loop, and every later change happens inside one of those callbacks. The
  embedding keeps the variables captured by the closures in a record and gives one
  function per callback; a run of a conversation is the list of callbacks the
  environment delivers, in order. JavaScript runs one callback at a time, so a callback is
  one atomic step.
\<close>

subsection \<open>Values\<close>

type_synonym host = string

text \<open>The request and reply bodies are opaque to the module.\<close>

type_synonym body = string

text \<open>An \<open>Error\<close> object, identified by its \<open>message\<close>.\<close>

datatype error = Error (message: string)

subsection \<open>Plain JavaScript objects used as dictionaries\<close>

text \<open>
  \<open>responses\<close> and \<open>expecting\<close> are plain objects keyed by host name, and a host name can
  be any string. An object is modelled by its own properties in creation order; what it
  inherits from \<open>Object.prototype\<close> is the same for every object: the members below, all
  of them truthy, none of them an array. All but \<open>__proto__\<close> are writable data properties
  (functions); \<open>__proto__\<close> is an accessor whose getter returns the prototype.
\<close>

type_synonym 'v obj = "(string \<times> 'v) list"

definition prototype_names :: "string list" where
  "prototype_names =
     [''constructor'', ''__defineGetter__'', ''__defineSetter__'', ''hasOwnProperty'',
      ''__lookupGetter__'', ''__lookupSetter__'', ''isPrototypeOf'', ''propertyIsEnumerable'',
      ''toString'', ''valueOf'', ''__proto__'', ''toLocaleString'']"

text \<open>The own property \<open>k\<close> of \<open>ob\<close>, if there is one.\<close>

definition obj_get :: "'v obj \<Rightarrow> string \<Rightarrow> 'v option" where
  "obj_get ob k = map_of ob k"

text \<open>
  Writing an own property: an existing property keeps its place, a new one goes last.
\<close>

fun put :: "'v obj \<Rightarrow> string \<Rightarrow> 'v \<Rightarrow> 'v obj" where
  "put [] k v = [(k, v)]"
| "put ((k', v') # ob) k v = (if k' = k then (k, v) # ob else (k', v') # put ob k v)"

text \<open>
  \<open>ob[k] = v\<close>. For an inherited data property the assignment creates an own property as
  for any other name. For \<open>__proto__\<close> it calls the inherited setter and creates none: the
  values this module assigns there are primitives, which the setter ignores, or
  \<open>Object.prototype\<close> itself, which is the prototype already.
\<close>

definition obj_set :: "'v obj \<Rightarrow> string \<Rightarrow> 'v \<Rightarrow> 'v obj" where
  "obj_set ob k v = (if k = ''__proto__'' then ob else put ob k v)"

text \<open>\<open>delete ob[k]\<close>.\<close>

definition obj_delete :: "'v obj \<Rightarrow> string \<Rightarrow> 'v obj" where
  "obj_delete ob k = filter (\<lambda>p. fst p \<noteq> k) ob"

text \<open>\<open>_.isEmpty(ob)\<close> on an object: it has no own property.\<close>

definition obj_isEmpty :: "'v obj \<Rightarrow> bool" where
  "obj_isEmpty ob = (ob = [])"

text \<open>
  \<open>_.keys(ob)\<close> is \<open>Object.keys\<close>: the property names that are array indices (canonical
  decimal numerals below \<open>2^32 - 1 = 4294967295\<close>) come first in ascending numeric order, then all other
  names in creation order.
\<close>

definition is_digit :: "char \<Rightarrow> bool" where
  "is_digit c = (48 \<le> (of_char c :: nat) \<and> (of_char c :: nat) \<le> 57)"

definition nat_of_digits :: "string \<Rightarrow> nat" where
  "nat_of_digits s = foldl (\<lambda>a c. 10 * a + ((of_char c :: nat) - 48)) 0 s"

definition is_array_index :: "string \<Rightarrow> bool" where
  "is_array_index s =
     (s \<noteq> [] \<and> list_all is_digit s \<and> (s = ''0'' \<or> hd s \<noteq> CHR ''0'')
      \<and> nat_of_digits s < 4294967295)"

definition obj_keys :: "'v obj \<Rightarrow> string list" where
  "obj_keys ob =
     sort_key nat_of_digits (filter is_array_index (map fst ob))
     @ filter (\<lambda>k. \<not> is_array_index k) (map fst ob)"

text \<open>
  \<open>_.invert(xs)\<close> on an array of host names: the object that maps every element to its
  index (as a string); a repeated element keeps its first place and its last index, and
  an element \<open>__proto__\<close> leaves no property.
\<close>

datatype expect_val = Index nat | JTrue

definition invert :: "host list \<Rightarrow> expect_val obj" where
  "invert xs = foldl (\<lambda>ob (i, h). obj_set ob h (Index i)) [] (enumerate 0 xs)"

text \<open>
  \<open>util.format('%s', n)\<close> of a number \<open>n\<close>: time-outs are whole numbers of milliseconds,
  printed as their decimal numerals.
\<close>

definition digit :: "nat \<Rightarrow> char" where
  "digit d = char_of (of_char CHR ''0'' + d)"

fun format_s :: "nat \<Rightarrow> string" where
  "format_s n = (if n < 10 then [] else format_s (n div 10)) @ [digit (n mod 10)]"

declare format_s.simps [simp del]

subsection \<open>The requester: \<open>request(name, data, options)\<close>\<close>

text \<open>
  Channel names come from \<open>lib/internal/conversations.broadcast\<close>
  (\<open>getRequestChannelName\<close>, \<open>getReplyChannelName\<close>); they stay symbolic.
\<close>

datatype channel = RequestChannel string | ReplyChannel string string

text \<open>A frame on the reply channel: \<open>message.type\<close>, \<open>message.host\<close>, \<open>message.body\<close>.\<close>

datatype frame = Frame (mtype: string) (mhost: host) (mbody: body)

text \<open>The request message published on the request channel.\<close>

datatype request_message = RequestMessage (broadcastId: string) (rhost: host) (rbody: body)

text \<open>
  A value found under \<open>responses[host]\<close>: the array of bodies received from the host, or,
  for a host named like a member of \<open>Object.prototype\<close>, what that member gives on a
  plain object: \<open>Member k\<close> is the inherited function \<open>k\<close>, and for \<open>__proto__\<close> the
  prototype that the getter returns.
\<close>

datatype response = Replies "body list" | Member string

text \<open>\<open>responses[k]\<close>: the own property, else the inherited member, else \<open>undefined\<close>.\<close>

definition responses_at :: "response obj \<Rightarrow> string \<Rightarrow> response option" where
  "responses_at ob k =
     (case obj_get ob k of
        Some v \<Rightarrow> Some v
      | None \<Rightarrow> if k \<in> set prototype_names then Some (Member k) else None)"

text \<open>
  What the emitter delivers to the consumer. \<open>hostEnd\<close> carries \<open>responses[host]\<close>, which
  can be \<open>undefined\<close>; \<open>end\<close> and \<open>error\<close> are emitted with or without the list of hosts
  still expected.
\<close>

datatype event =
    EvAck host
  | EvData host body
  | EvHostEnd host "response option"
  | EvEnd "response obj" "host list option"
  | EvError error "host list option"

text \<open>What the requester asks of the timer and of the channels.\<close>

datatype action =
    SetInterval
  | ClearInterval
  | Listen channel
  | OnData channel
  | Send channel request_message
  | Close channel

text \<open>
  The conversation's observable history, in order: emitted events, actions, and a
  \<open>TypeError\<close> thrown out of a callback.
\<close>

datatype obs = Emit event | Do action | Throw

text \<open>
  The callback passed to \<open>_tearDown\<close>, which \<open>broadcastChannelIn.close\<close> invokes: the one
  of \<open>_timeout(reason)\<close>, of \<open>_receiveEnd\<close>, of the failed \<open>listen\<close> and of the failed
  \<open>send\<close>.
\<close>

datatype teardown_callback =
    AfterTimeout string
  | AfterCompletion
  | AfterListenError error
  | AfterSendError error

record options =
  expect :: "host list option"
  timeout_connect :: "nat option"
  timeout_idle :: "nat option"

text \<open>
  The variables of one \<open>request\<close> call. Times are milliseconds as read from \<open>Date.now()\<close>.
  \<open>nextTick\<close>, \<open>timeoutInterval\<close>, \<open>listening\<close>, \<open>onData\<close>, \<open>sending\<close> and \<open>closing\<close> record
  which callbacks are registered and not yet spent: the \<open>process.nextTick\<close> callback, the
  interval, the callback of \<open>listen\<close>, the \<open>'data'\<close> handler, the callback of \<open>send\<close> and
  the callback of \<open>close\<close>. \<open>processed\<close> is a history variable: the frames that passed the
  \<open>closed\<close> test of the \<open>'data'\<close> handler.
\<close>

record requester =
  closed :: bool
  responses :: "response obj"
  expecting :: "expect_val obj"
  start :: nat
  lastMessage :: nat
  connect :: nat
  idle :: nat
  channelIn :: channel
  channelOut :: channel
  message_out :: request_message
  nextTick :: bool
  timeoutInterval :: bool
  listening :: bool
  onData :: bool
  sending :: bool
  closing :: "teardown_callback option"
  history :: "obs list"
  processed :: "frame list"

definition emit :: "event \<Rightarrow> requester \<Rightarrow> requester" where
  "emit e s = s\<lparr>history := history s @ [Emit e]\<rparr>"

definition perform :: "action \<Rightarrow> requester \<Rightarrow> requester" where
  "perform a s = s\<lparr>history := history s @ [Do a]\<rparr>"

text \<open>\<open>x || d\<close> on an optional number: \<open>undefined\<close> and \<open>0\<close> take the default.\<close>

definition or_default :: "nat option \<Rightarrow> nat \<Rightarrow> nat" where
  "or_default x d = (case x of None \<Rightarrow> d | Some n \<Rightarrow> if n = 0 then d else n)"

text \<open>
  \<open>options.expect || cowboy.presence.hosts()\<close>; the body of \<open>request\<close> up to its \<open>return\<close>. \<open>hosts\<close> is \<open>cowboy.presence.hosts()\<close>, \<open>self\<close>
  is \<open>_host()\<close>, \<open>rnd\<close> is \<open>cowboy.util.rnd()\<close> and \<open>now\<close> is \<open>Date.now()\<close>. An array given as
  \<open>options.expect\<close> is truthy even when empty, so only an absent \<open>expect\<close> takes the
  presence list.
\<close>

definition expect_or_hosts :: "options \<Rightarrow> host list \<Rightarrow> host list" where
  "expect_or_hosts opts hosts = (case expect opts of None \<Rightarrow> hosts | Some xs \<Rightarrow> xs)"

definition request :: "host list \<Rightarrow> host \<Rightarrow> string \<Rightarrow> nat \<Rightarrow> string \<Rightarrow> body \<Rightarrow> options \<Rightarrow> requester" where
  "request hosts self rnd now name data opts =
     (let expect' = expect_or_hosts opts hosts;
          s = \<lparr> closed = False,
                responses = [],
                expecting = invert expect',
                start = now,
                lastMessage = 0,
                connect = or_default (timeout_connect opts) 5000,
                idle = or_default (timeout_idle opts) 5000,
                channelIn = ReplyChannel name rnd,
                channelOut = RequestChannel name,
                message_out = RequestMessage rnd self data,
                nextTick = False,
                timeoutInterval = False,
                listening = False,
                onData = False,
                sending = False,
                closing = None,
                history = [],
                processed = [] \<rparr>
      in if expect' = [] then s\<lparr>nextTick := True\<rparr>
         else (perform (Listen (channelIn s)) (perform SetInterval s))
                \<lparr>timeoutInterval := True, listening := True\<rparr>)"

text \<open>\<open>_tearDown(callback)\<close>.\<close>

definition tearDown :: "teardown_callback \<Rightarrow> requester \<Rightarrow> requester" where
  "tearDown callback s =
     (if closed s then s
      else (perform (Close (channelIn s)) (perform ClearInterval (s\<lparr>closed := True\<rparr>)))
             \<lparr>timeoutInterval := False, closing := Some callback\<rparr>)"

text \<open>\<open>_timeout(reason)\<close>; its callback runs in \<open>close_callback\<close> below.\<close>

definition timeout :: "string \<Rightarrow> requester \<Rightarrow> requester" where
  "timeout reason s = tearDown (AfterTimeout reason) s"

text \<open>
  \<open>_receiveAck(host)\<close>. \<open>responses[host]\<close> is falsy only when it is \<open>undefined\<close>: arrays
  and the inherited members are truthy.
\<close>

definition receiveAck :: "host \<Rightarrow> requester \<Rightarrow> requester" where
  "receiveAck h s =
     (let s1 = s\<lparr>expecting := obj_set (expecting s) h JTrue\<rparr>;
          s2 = (if responses_at (responses s1) h = None
                then s1\<lparr>responses := obj_set (responses s1) h (Replies [])\<rparr> else s1)
      in emit (EvAck h) s2)"

text \<open>
  \<open>_receiveData(host, body)\<close>. The first statement stores \<open>responses[host] || []\<close> under
  \<open>host\<close>, and \<open>responses[host]\<close> is that value from then on. When it is an array the body
  is pushed, the host is marked as expected and \<open>data\<close> is emitted. When it is an inherited
  member it has no \<open>push\<close>: the call throws a \<open>TypeError\<close> out of the handler, after the
  first statement and before the rest.
\<close>

definition receiveData :: "host \<Rightarrow> body \<Rightarrow> requester \<Rightarrow> requester" where
  "receiveData h b s =
     (let v = (case responses_at (responses s) h of None \<Rightarrow> Replies [] | Some v \<Rightarrow> v);
          s1 = s\<lparr>responses := obj_set (responses s) h v\<rparr>
      in case v of
           Replies bs \<Rightarrow>
             (let s2 = s1\<lparr>responses := obj_set (responses s1) h (Replies (bs @ [b]))\<rparr>;
                  s3 = s2\<lparr>expecting := obj_set (expecting s2) h JTrue\<rparr>
              in emit (EvData h b) s3)
         | Member k \<Rightarrow> s1\<lparr>history := history s1 @ [Throw]\<rparr>)"

text \<open>\<open>_receiveEnd(host)\<close>.\<close>

definition receiveEnd :: "host \<Rightarrow> requester \<Rightarrow> requester" where
  "receiveEnd h s =
     (let s1 = s\<lparr>expecting := obj_delete (expecting s) h\<rparr>;
          s2 = emit (EvHostEnd h (responses_at (responses s1) h)) s1
      in if obj_isEmpty (expecting s2) then tearDown AfterCompletion s2 else s2)"

text \<open>The two messages built with \<open>util.format\<close> in the interval callback.\<close>

definition connect_message :: "nat \<Rightarrow> string" where
  "connect_message n =
     ''Did not receive a message within the connect timeout interval of '' @ format_s n @ ''ms''"

definition idle_message :: "nat \<Rightarrow> string" where
  "idle_message n =
     ''Did not receive a message with the idle timeout interval of '' @ format_s n @ ''ms''"

text \<open>The callback of \<open>setInterval\<close>; \<open>now\<close> is \<open>Date.now()\<close>.\<close>

definition interval_callback :: "nat \<Rightarrow> requester \<Rightarrow> requester" where
  "interval_callback now s =
     (if closed s then s
      else if lastMessage s = 0 then
        (if now > start s + connect s then timeout (connect_message (connect s)) s else s)
      else if now > lastMessage s + idle s then timeout (idle_message (idle s)) s
      else s)"

text \<open>The \<open>'data'\<close> handler of \<open>broadcastChannelIn\<close>; \<open>now\<close> is \<open>Date.now()\<close>.\<close>

definition data_handler :: "nat \<Rightarrow> frame \<Rightarrow> requester \<Rightarrow> requester" where
  "data_handler now m s =
     (if closed s then s
      else let s1 = s\<lparr>lastMessage := now, processed := processed s @ [m]\<rparr>
           in if mtype m = ''ack'' then receiveAck (mhost m) s1
              else if mtype m = ''data'' then receiveData (mhost m) (mbody m) s1
              else if mtype m = ''end'' then receiveEnd (mhost m) s1
              else s1)"

text \<open>The callback of \<open>send\<close> on the request channel.\<close>

definition send_callback :: "error option \<Rightarrow> requester \<Rightarrow> requester" where
  "send_callback err s =
     (case err of Some e \<Rightarrow> tearDown (AfterSendError e) s | None \<Rightarrow> s)"

text \<open>
  The callback of \<open>broadcastChannelIn.listen\<close>. The \<open>else if (err)\<close> branch has no
  \<open>return\<close>: after it the handler is registered and the request is sent all the same.
\<close>

definition listen_callback :: "error option \<Rightarrow> requester \<Rightarrow> requester" where
  "listen_callback err s =
     (if closed s then s
      else let s1 = (case err of Some e \<Rightarrow> tearDown (AfterListenError e) s | None \<Rightarrow> s);
               s2 = (perform (OnData (channelIn s1)) s1)\<lparr>onData := True\<rparr>
           in (perform (Send (channelOut s2) (message_out s2)) s2)\<lparr>sending := True\<rparr>)"

text \<open>
  The callbacks handed to \<open>_tearDown\<close>, run with the outcome \<open>err\<close> of
  \<open>broadcastChannelIn.close\<close> (which they only log).
\<close>

definition close_callback :: "teardown_callback \<Rightarrow> error option \<Rightarrow> requester \<Rightarrow> requester" where
  "close_callback callback err s =
     (case callback of
        AfterTimeout reason \<Rightarrow>
          if obj_isEmpty (responses s)
          then emit (EvError (Error reason) (Some (obj_keys (expecting s)))) s
          else emit (EvEnd (responses s) (Some (obj_keys (expecting s)))) s
      | AfterCompletion \<Rightarrow> emit (EvEnd (responses s) None) s
      | AfterListenError e \<Rightarrow> emit (EvError e None) s
      | AfterSendError e \<Rightarrow> emit (EvError e None) s)"

text \<open>The callback of \<open>process.nextTick\<close> in the empty case.\<close>

definition nextTick_callback :: "requester \<Rightarrow> requester" where
  "nextTick_callback s = emit (EvEnd (responses s) None) s"

text \<open>
  What the environment can deliver to a conversation. A callback runs only if the code
  has registered it: a one-shot callback (next tick, \<open>listen\<close>, \<open>send\<close>, \<open>close\<close>) runs
  once, the interval runs until \<open>clearInterval\<close>, the \<open>'data'\<close> handler runs for every
  frame once it is registered. An input with no registered callback changes nothing.
\<close>

datatype input =
    NextTick
  | Interval nat
  | Listening "error option"
  | Data nat frame
  | Sent "error option"
  | Closed "error option"

definition step :: "requester \<Rightarrow> input \<Rightarrow> requester" where
  "step s i =
     (case i of
        NextTick \<Rightarrow> if nextTick s then nextTick_callback (s\<lparr>nextTick := False\<rparr>) else s
      | Interval now \<Rightarrow> if timeoutInterval s then interval_callback now s else s
      | Listening err \<Rightarrow> if listening s then listen_callback err (s\<lparr>listening := False\<rparr>) else s
      | Data now m \<Rightarrow> if onData s then data_handler now m s else s
      | Sent err \<Rightarrow> if sending s then send_callback err (s\<lparr>sending := False\<rparr>) else s
      | Closed err \<Rightarrow>
          (case closing s of
             None \<Rightarrow> s
           | Some callback \<Rightarrow> close_callback callback err (s\<lparr>closing := None\<rparr>)))"

definition run :: "requester \<Rightarrow> input list \<Rightarrow> requester" where
  "run s ins = foldl step s ins"

definition events :: "requester \<Rightarrow> event list" where
  "events s = [e. Emit e \<leftarrow> history s]"

definition actions :: "requester \<Rightarrow> action list" where
  "actions s = [a. Do a \<leftarrow> history s]"

subsection \<open>The listener: the per-request operations of \<open>listen(name)\<close>\<close>

text \<open>The frames a listener publishes on the reply channel, stamped with \<open>_host()\<close>.\<close>

datatype reply_frame = AckFrame host | DataFrame host body | EndFrame host

datatype level = LogError | LogWarn

text \<open>
  What a reply channel's operations do to the outside: \<open>Publish f c\<close> hands frame \<open>f\<close> to
  \<open>broadcastChannelOut.send\<close>, and \<open>c\<close> records the value of \<open>closed\<close> at that moment;
  \<open>CloseOut\<close> is \<open>broadcastChannelOut.close\<close>; \<open>Log\<close> is a logger call with its \<open>err\<close>
  field and message; \<open>Callback\<close> is a call of the consumer's callback (or of the empty
  function that stands in for an unspecified one) with its argument.
\<close>

datatype effect =
    Publish reply_frame bool
  | CloseOut
  | Log level error string
  | Callback "error option"

text \<open>
  The \<open>callback\<close> argument of \<open>reply\<close> and \<open>end\<close>: a falsy value, a function, or a truthy
  value that is not a function.
\<close>

datatype callback_arg = Unspecified | Function | NotFunction

text \<open>The variables a request's \<open>_reply\<close> and \<open>_end\<close> close over, and what they did so far.\<close>

record reply_channel =
  closed_out :: bool
  host_out :: host
  effects :: "effect list"

definition effect :: "effect \<Rightarrow> reply_channel \<Rightarrow> reply_channel" where
  "effect e c = c\<lparr>effects := effects c @ [e]\<rparr>"

definition publish :: "reply_frame \<Rightarrow> reply_channel \<Rightarrow> reply_channel" where
  "publish f c = effect (Publish f (closed_out c)) c"

text \<open>
  The callback of the \<open>ack\<close> publish in \<open>listen\<close>: on an error the request is logged and
  dropped; otherwise \<open>closed\<close> starts false and \<open>request\<close> is emitted with \<open>_reply\<close> and
  \<open>_end\<close>.
\<close>

definition ack_callback :: "host \<Rightarrow> error option \<Rightarrow> reply_channel option" where
  "ack_callback h err =
     (case err of
        Some e \<Rightarrow> None
      | None \<Rightarrow> Some \<lparr>closed_out = False, host_out = h, effects = []\<rparr>)"

definition invalid_argument :: error where
  "invalid_argument =
     Error ''Second parameter to reply function should either be unspecified or a function''"

definition after_end :: error where
  "after_end = Error ''Attempted to send response frame after response was ended''"

definition after_end_log :: string where
  "after_end_log = ''Rejecting attempt to send broadcast response frame after it was ended''"

text \<open>\<open>_reply(replyData, callback)\<close>; \<open>Inl\<close> is the exception it throws.\<close>

definition reply :: "body \<Rightarrow> callback_arg \<Rightarrow> reply_channel \<Rightarrow> error + reply_channel" where
  "reply replyData callback c =
     (if callback = NotFunction then Inl invalid_argument
      else if closed_out c then
        Inr (effect (Callback (Some after_end)) (effect (Log LogError after_end after_end_log) c))
      else Inr (publish (DataFrame (host_out c) replyData) c))"

text \<open>The two warnings of \<open>_end\<close>.\<close>

definition end_send_warning :: string where
  \<open>end_send_warning = ''Failed to send "end" message to broadcast response''\<close>

definition end_close_warning :: string where
  \<open>end_close_warning =
     ''Failed to send close the broadcast output channel after "end" response''\<close>

text \<open>
  \<open>_end(callback)\<close> in its three parts: the call itself, up to the \<open>send\<close> of the end
  frame; the callback of that \<open>send\<close>, which returns the new value of the local \<open>_err\<close>;
  and the callback of \<open>close\<close>, which takes \<open>_err\<close> as left by the former.
\<close>

definition end_call :: "reply_channel \<Rightarrow> reply_channel" where
  "end_call c = publish (EndFrame (host_out c)) (c\<lparr>closed_out := True\<rparr>)"

definition end_sent :: "error option \<Rightarrow> reply_channel \<Rightarrow> error option \<times> reply_channel" where
  "end_sent err c =
     (let (err', c1) =
        (case err of
           Some e \<Rightarrow> (Some e, effect (Log LogWarn e end_send_warning) c)
         | None \<Rightarrow> (None, c))
      in (err', effect CloseOut c1))"

definition end_closed :: "error option \<Rightarrow> error option \<Rightarrow> reply_channel \<Rightarrow> reply_channel" where
  "end_closed err' err c =
     (let (err'', c1) =
        (case err of
           Some e \<Rightarrow> (Some e, effect (Log LogWarn e end_close_warning) c)
         | None \<Rightarrow> (err', c))
      in effect (Callback err'') c1)"

text \<open>
  A whole \<open>_end\<close> call whose \<open>send\<close> reports \<open>send_err\<close> and whose \<open>close\<close> reports
  \<open>close_err\<close>, with nothing else in between.
\<close>

definition end_reply :: "error option \<Rightarrow> error option \<Rightarrow> reply_channel \<Rightarrow> reply_channel" where
  "end_reply send_err close_err c =
     (let (err', c1) = end_sent send_err (end_call c) in end_closed err' close_err c1)"

subsection \<open>Properties of conversations\<close>

text \<open>The terminal events \<open>end\<close> and \<open>error\<close>, and the two actions of a teardown.\<close>

fun terminal :: "obs \<Rightarrow> bool" where
  "terminal (Emit (EvEnd r ks)) = True"
| "terminal (Emit (EvError e ks)) = True"
| "terminal x = False"

fun teardown_action :: "obs \<Rightarrow> bool" where
  "teardown_action (Do ClearInterval) = True"
| "teardown_action (Do (Close ch)) = True"
| "teardown_action x = False"

text \<open>
  The stages of a conversation whose initial \<open>expect\<close> is \<open>E\<close>. With an empty \<open>E\<close>: waiting
  for the next tick, then over. Otherwise: open (the interval runs, nothing torn down, no
  terminal event), torn down with the callback of \<open>close\<close> outstanding, and over, when
  the terminal event is the last thing that happened.
\<close>

definition stage_ok :: "host list \<Rightarrow> requester \<Rightarrow> bool" where
  "stage_ok E s =
     (if E = [] then
        \<not> closed s \<and> \<not> timeoutInterval s \<and> \<not> listening s \<and> \<not> onData s \<and> \<not> sending s
        \<and> closing s = None \<and> responses s = [] \<and> expecting s = [] \<and> processed s = []
        \<and> (if nextTick s then history s = [] else history s = [Emit (EvEnd [] None)])
      else
        \<not> nextTick s
        \<and> (if \<not> closed s then
             timeoutInterval s \<and> closing s = None \<and> filter terminal (history s) = []
             \<and> filter teardown_action (history s) = []
           else
             \<not> timeoutInterval s
             \<and> filter teardown_action (history s) = [Do ClearInterval, Do (Close (channelIn s))]
             \<and> (case closing s of
                  Some callback \<Rightarrow> filter terminal (history s) = []
                | None \<Rightarrow> history s \<noteq> [] \<and> terminal (last (history s))
                          \<and> filter terminal (butlast (history s)) = [])))"

text \<open>
  The frames of host \<open>H\<close> that touch \<open>expecting\<close>, among the frames processed; and the
  hosts a conversation still waits for: a host with no such frame is awaited when it was
  in the initial \<open>expect\<close>, any other host when its latest such frame is not its \<open>end\<close>.
\<close>

definition lifecycle :: "host \<Rightarrow> frame list \<Rightarrow> frame list" where
  "lifecycle H fs =
     filter (\<lambda>m. mhost m = H \<and> (mtype m = ''ack'' \<or> mtype m = ''data'' \<or> mtype m = ''end'')) fs"

definition still_expected :: "host list \<Rightarrow> frame list \<Rightarrow> host \<Rightarrow> bool" where
  "still_expected E fs H =
     (if lifecycle H fs = [] then H \<in> set E else mtype (last (lifecycle H fs)) \<noteq> ''end'')"

text \<open>
  The reading under which a host is awaited exactly when it was in the initial \<open>expect\<close>
  or sent an \<open>ack\<close> or \<open>data\<close> frame, and none of its \<open>end\<close> frames was processed.
\<close>

definition expected_never_ended :: "host list \<Rightarrow> frame list \<Rightarrow> host \<Rightarrow> bool" where
  "expected_never_ended E fs H =
     ((H \<in> set E \<or> list_ex (\<lambda>m. mhost m = H \<and> (mtype m = ''ack'' \<or> mtype m = ''data'')) fs)
      \<and> \<not> list_ex (\<lambda>m. mhost m = H \<and> mtype m = ''end'') fs)"

text \<open>
  What a terminal event in the history says about \<open>expecting\<close>: a list of hosts it
  carries is \<open>_.keys(expecting)\<close>, and an \<open>end\<close> without a list comes with an empty
  \<open>expecting\<close>.
\<close>

fun reported :: "expect_val obj \<Rightarrow> obs \<Rightarrow> bool" where
  "reported ex (Emit (EvEnd r (Some ks))) = (ks = obj_keys ex)"
| "reported ex (Emit (EvEnd r None)) = (ex = [])"
| "reported ex (Emit (EvError e (Some ks))) = (ks = obj_keys ex)"
| "reported ex x = True"

definition expecting_ok :: "host list \<Rightarrow> requester \<Rightarrow> bool" where
  "expecting_ok E s =
     ((\<forall>H. H \<notin> set prototype_names \<longrightarrow>
            (H \<in> fst ` set (expecting s)) = still_expected E (processed s) H)
      \<and> (\<forall>k v. (k, v) \<in> set (responses s) \<longrightarrow> k \<notin> set prototype_names \<longrightarrow>
            (\<exists>bs. v = Replies bs))
      \<and> (closing s = Some AfterCompletion \<longrightarrow> expecting s = [])
      \<and> list_all (reported (expecting s)) (history s))"

subsection \<open>Example conversations\<close>

text \<open>
  A request on channel \<open>test\<close> at time 1000 that expects \<open>host0\<close> and \<open>host1\<close>, with a
  connect timeout of 10 ms and an idle timeout of 100 ms; the same request with an empty
  \<open>expect\<close>; and the request once its subscription is ready and the request frame is sent.
\<close>

definition example_options :: options where
  "example_options =
     \<lparr>expect = Some [''host0'', ''host1''], timeout_connect = Some 10, timeout_idle = Some 100\<rparr>"

definition example_request :: requester where
  "example_request = request [] ''host0'' ''id0'' 1000 ''test'' ''test-request'' example_options"

definition example_empty :: requester where
  "example_empty =
     request [] ''host0'' ''id0'' 1000 ''test'' ''test-request'' (example_options\<lparr>expect := Some []\<rparr>)"

definition example_open :: requester where
  "example_open = run example_request [Listening None, Sent None]"

text \<open>
  The example request answered by \<open>host0\<close> and ended by both hosts; and the example
  request when an unexpected \<open>host2\<close> acknowledges, \<open>host0\<close> ends and the idle timeout
  passes.
\<close>

definition example_completed :: requester where
  "example_completed =
     run example_request
       [Listening None, Sent None, Data 1001 (Frame ''ack'' ''host0'' ''''),
        Data 1002 (Frame ''data'' ''host0'' ''test-response''),
        Data 1003 (Frame ''end'' ''host0'' ''''), Data 1004 (Frame ''end'' ''host1'' ''''),
        Closed None]"

definition example_unexpected :: requester where
  "example_unexpected =
     run example_request
       [Listening None, Sent None, Data 1001 (Frame ''ack'' ''host2'' ''''),
        Data 1002 (Frame ''end'' ''host0'' ''''), Interval 1200, Closed None]"

text \<open>A reply channel of \<open>host0\<close> after its \<open>ack\<close>, and the same channel once ended.\<close>

definition example_channel :: reply_channel where
  "example_channel = \<lparr>closed_out = False, host_out = ''host0'', effects = []\<rparr>"

definition example_ended :: reply_channel where
  "example_ended = end_reply None None example_channel"

section \<open>Verification\<close>

subsection \<open>Dictionaries\<close>

lemma keys_put: "fst ` set (put ob k v) = insert k (fst ` set ob)"
  by (induction ob) force+

lemma keys_obj_set:
  "fst ` set (obj_set ob k v) = (if k = ''__proto__'' then fst ` set ob else insert k (fst ` set ob))"
  by (simp add: obj_set_def keys_put)

lemma in_put: "(k', v') \<in> set (put ob k v) \<Longrightarrow> (k', v') \<in> set ob \<or> (k' = k \<and> v' = v)"
  by (induction ob) (auto split: if_splits)

lemma in_obj_set: "(k', v') \<in> set (obj_set ob k v) \<Longrightarrow> (k', v') \<in> set ob \<or> (k' = k \<and> v' = v)"
  by (auto simp: obj_set_def dest: in_put split: if_splits)

lemma proto_is_prototype_name: "''__proto__'' \<in> set prototype_names"
  by (simp add: prototype_names_def)

lemma keys_obj_delete: "fst ` set (obj_delete ob k) = fst ` set ob - {k}"
  by (auto simp: obj_delete_def)

lemma obj_delete_Nil: "(obj_delete ob k = []) = (fst ` set ob \<subseteq> {k})"
  by (auto simp: obj_delete_def filter_empty_conv)

lemma set_obj_keys: "set (obj_keys ob) = fst ` set ob"
  by (auto simp: obj_keys_def)

lemma keys_invert_aux:
  "fst ` set (foldl (\<lambda>ob (i, h). obj_set ob h (Index i)) ob (enumerate n xs)) =
     fst ` set ob \<union> (set xs - {''__proto__''})"
  by (induction xs arbitrary: ob n) (auto simp: keys_obj_set)

lemma keys_invert: "fst ` set (invert xs) = set xs - {''__proto__''}"
  by (simp add: invert_def keys_invert_aux)

lemma invert_Nil: "invert [] = []"
  by (simp add: invert_def)

subsection \<open>Runs of a conversation\<close>

lemmas requester_defs = step_def run_def interval_callback_def data_handler_def listen_callback_def
  send_callback_def close_callback_def nextTick_callback_def tearDown_def timeout_def
  receiveAck_def receiveData_def receiveEnd_def emit_def perform_def events_def actions_def

lemma channelIn_step: "channelIn (step s i) = channelIn s"
  by (cases i) (auto simp: requester_defs Let_def split: option.splits teardown_callback.splits response.splits)

lemma channelIn_run: "channelIn (run s ins) = channelIn s"
  by (induction ins arbitrary: s) (simp_all add: run_def channelIn_step)

lemma timeouts_step: "connect (step s i) = connect s \<and> idle (step s i) = idle s"
  by (cases i) (auto simp: requester_defs Let_def split: option.splits teardown_callback.splits response.splits)

lemma timeouts_run: "connect (run s ins) = connect s \<and> idle (run s ins) = idle s"
  by (induction ins arbitrary: s) (simp_all add: run_def timeouts_step)

lemma timeouts_request:
  "connect (request hosts self rnd now name data opts) = or_default (timeout_connect opts) 5000
   \<and> idle (request hosts self rnd now name data opts) = or_default (timeout_idle opts) 5000"
  by (simp add: request_def Let_def perform_def)

lemma closed_ignores_frame: "closed s \<Longrightarrow> step s (Data t m) = s"
  by (simp add: step_def data_handler_def)

text \<open>Every run of a conversation stays within the stages.\<close>

lemma stage_ok_request: "stage_ok (expect_or_hosts opts hosts) (request hosts self rnd now name data opts)"
  by (simp add: stage_ok_def request_def Let_def perform_def invert_Nil)

lemma stage_ok_step: "stage_ok E s \<Longrightarrow> stage_ok E (step s i)"
  by (cases i) (auto simp: stage_ok_def requester_defs Let_def split: if_splits option.splits teardown_callback.splits response.splits)

lemma stage_ok_foldl: "stage_ok E s \<Longrightarrow> stage_ok E (foldl step s ins)"
  by (induction ins arbitrary: s) (simp_all add: stage_ok_step)

lemma stage_ok_run:
  "stage_ok (expect_or_hosts opts hosts) (run (request hosts self rnd now name data opts) ins)"
  unfolding run_def by (rule stage_ok_foldl [OF stage_ok_request])

text \<open>What follows from the stages.\<close>

lemma filter_butlast_Nil: "filter P h = [] \<Longrightarrow> filter P (butlast h) = []"
  by (auto simp: filter_empty_conv dest: in_set_butlastD)

lemma filter_last: "h \<noteq> [] \<Longrightarrow> filter P h = filter P (butlast h) @ (if P (last h) then [last h] else [])"
  by (induction h) auto

lemma terminal_not_teardown: "terminal x \<Longrightarrow> \<not> teardown_action x"
  by (induction x rule: terminal.induct) simp_all

lemma stage_terminal_last: "stage_ok E s \<Longrightarrow> filter terminal (butlast (history s)) = []"
  by (auto simp: stage_ok_def filter_butlast_Nil split: if_splits option.splits response.splits)

lemma stage_terminal_once: "stage_ok E s \<Longrightarrow> length (filter terminal (history s)) \<le> 1"
  by (auto simp: stage_ok_def filter_last [of "history s" terminal] split: if_splits option.splits response.splits)

lemma stage_teardown_once:
  "stage_ok E s \<Longrightarrow>
     filter teardown_action (history s) = (if E \<noteq> [] \<and> closed s then [Do ClearInterval, Do (Close (channelIn s))] else [])"
  by (auto simp: stage_ok_def split: if_splits option.splits response.splits)

lemma stage_teardown_first:
  "stage_ok E s \<Longrightarrow> filter terminal (history s) \<noteq> [] \<Longrightarrow>
     filter teardown_action (butlast (history s)) =
       (if E = [] then [] else [Do ClearInterval, Do (Close (channelIn s))])"
  by (auto simp: stage_ok_def filter_last [of "history s" teardown_action] terminal_not_teardown
      split: if_splits option.splits response.splits)

lemma stage_over:
  "stage_ok E s \<Longrightarrow> \<not> nextTick s \<Longrightarrow> \<not> timeoutInterval s \<Longrightarrow> closing s = None \<Longrightarrow>
     length (filter terminal (history s)) = 1"
  by (auto simp: stage_ok_def filter_last [of "history s" terminal] split: if_splits option.splits response.splits)

lemma stage_ends:
  "stage_ok E s \<Longrightarrow>
     length (filter terminal (history (run s
        [NextTick, Interval (Suc (start s + connect s + lastMessage s + idle s)), Closed None]))) = 1"
  by (auto simp: stage_ok_def requester_defs filter_last [of "history s" terminal]
      split: if_splits option.splits teardown_callback.splits response.splits)

text \<open>\<open>expecting\<close> follows the frames processed, and terminal events report it.\<close>

lemma still_expected_snoc:
  "still_expected E (fs @ [m]) H =
     (if mhost m = H \<and> (mtype m = ''ack'' \<or> mtype m = ''data'' \<or> mtype m = ''end'')
      then mtype m \<noteq> ''end'' else still_expected E fs H)"
  by (auto simp: still_expected_def lifecycle_def)

lemma not_terminal_reported: "\<not> terminal x \<Longrightarrow> reported ex x"
  by (induction ex x rule: reported.induct) simp_all

lemma no_terminal_reported: "filter terminal h = [] \<Longrightarrow> list_all (reported ex) h"
  by (induction h) (auto simp: not_terminal_reported split: if_splits)

lemma expecting_ok_request:
  "expecting_ok (expect_or_hosts opts hosts) (request hosts self rnd now name data opts)"
  using proto_is_prototype_name
  by (auto simp: expecting_ok_def request_def Let_def perform_def keys_invert still_expected_def
      lifecycle_def)

lemma expecting_ok_step:
  assumes "stage_ok E s" and "expecting_ok E s"
  shows "expecting_ok E (step s i)"
proof (cases i)
  case NextTick
  with assms show ?thesis
    by (auto simp: expecting_ok_def stage_ok_def requester_defs split: if_splits)
next
  case (Interval now)
  with assms show ?thesis
    by (auto simp: expecting_ok_def stage_ok_def requester_defs split: if_splits)
next
  case (Listening err)
  with assms show ?thesis
    by (auto simp: expecting_ok_def stage_ok_def requester_defs Let_def no_terminal_reported
        split: if_splits option.splits response.splits)
next
  case (Data now m)
  with assms show ?thesis
    by (auto simp: expecting_ok_def stage_ok_def requester_defs Let_def no_terminal_reported
        keys_obj_set keys_obj_delete still_expected_snoc obj_isEmpty_def obj_delete_Nil
        proto_is_prototype_name responses_at_def obj_get_def
        dest!: in_obj_set map_of_SomeD
        split: if_splits option.splits response.splits)
next
  case (Sent err)
  with assms show ?thesis
    by (auto simp: expecting_ok_def stage_ok_def requester_defs Let_def no_terminal_reported
        split: if_splits option.splits response.splits)
next
  case (Closed err)
  with assms show ?thesis
    by (auto simp: expecting_ok_def stage_ok_def requester_defs Let_def no_terminal_reported
        split: if_splits option.splits teardown_callback.splits response.splits)
qed

lemma expecting_ok_foldl:
  "stage_ok E s \<Longrightarrow> expecting_ok E s \<Longrightarrow> expecting_ok E (foldl step s ins)"
  by (induction ins arbitrary: s) (simp_all add: stage_ok_step expecting_ok_step)

lemma expecting_ok_run:
  "expecting_ok (expect_or_hosts opts hosts) (run (request hosts self rnd now name data opts) ins)"
  unfolding run_def by (rule expecting_ok_foldl [OF stage_ok_request expecting_ok_request])

lemma reported_end_keys:
  "list_all (reported ex) h \<Longrightarrow> Emit (EvEnd r (Some ks)) \<in> set h \<Longrightarrow> ks = obj_keys ex"
  by (auto simp: list_all_iff)

lemma reported_error_keys:
  "list_all (reported ex) h \<Longrightarrow> Emit (EvError e (Some ks)) \<in> set h \<Longrightarrow> ks = obj_keys ex"
  by (auto simp: list_all_iff)

lemma reported_end_empty:
  "list_all (reported ex) h \<Longrightarrow> Emit (EvEnd r None) \<in> set h \<Longrightarrow> ex = []"
  by (auto simp: list_all_iff)

subsection \<open>The example conversations, evaluated\<close>

lemmas example_defs = request_def expect_or_hosts_def or_default_def invert_def Let_def
  obj_get_def obj_set_def responses_at_def prototype_names_def obj_delete_def obj_isEmpty_def obj_keys_def is_array_index_def is_digit_def
  nat_of_digits_def

lemma format_s_10: "format_s 10 = ''10''"
  by code_simp

lemma format_s_100: "format_s 100 = ''100''"
  by code_simp

lemma example_open_run:
  "example_open =
     run (request [] ''host0'' ''id0'' 1000 ''test'' ''test-request'' example_options)
       [Listening None, Sent None]"
  by (simp add: example_open_def example_request_def)

lemma example_open_run_snoc:
  "run example_open [i] =
     run (request [] ''host0'' ''id0'' 1000 ''test'' ''test-request'' example_options)
       [Listening None, Sent None, i]"
  by (simp add: example_open_def example_request_def run_def)

lemma example_open_eq:
  "example_open =
     \<lparr>closed = False, responses = [], expecting = [(''host0'', Index 0), (''host1'', Index 1)],
      start = 1000, lastMessage = 0, connect = 10, idle = 100,
      channelIn = ReplyChannel ''test'' ''id0'', channelOut = RequestChannel ''test'',
      message_out = RequestMessage ''id0'' ''host0'' ''test-request'',
      nextTick = False, timeoutInterval = True, listening = False, onData = True, sending = False,
      closing = None,
      history = [Do SetInterval, Do (Listen (ReplyChannel ''test'' ''id0'')),
                 Do (OnData (ReplyChannel ''test'' ''id0'')),
                 Do (Send (RequestChannel ''test'') (RequestMessage ''id0'' ''host0'' ''test-request''))],
      processed = []\<rparr>"
  by (simp add: example_open_def example_request_def example_options_def example_defs requester_defs)

lemma example_completed_eq:
  "example_completed =
     \<lparr>closed = True, responses = [(''host0'', Replies [''test-response''])], expecting = [],
      start = 1000, lastMessage = 1004, connect = 10, idle = 100,
      channelIn = ReplyChannel ''test'' ''id0'', channelOut = RequestChannel ''test'',
      message_out = RequestMessage ''id0'' ''host0'' ''test-request'',
      nextTick = False, timeoutInterval = False, listening = False, onData = True, sending = False,
      closing = None,
      history = [Do SetInterval, Do (Listen (ReplyChannel ''test'' ''id0'')),
                 Do (OnData (ReplyChannel ''test'' ''id0'')),
                 Do (Send (RequestChannel ''test'') (RequestMessage ''id0'' ''host0'' ''test-request'')),
                 Emit (EvAck ''host0''), Emit (EvData ''host0'' ''test-response''),
                 Emit (EvHostEnd ''host0'' (Some (Replies [''test-response'']))),
                 Emit (EvHostEnd ''host1'' None), Do ClearInterval,
                 Do (Close (ReplyChannel ''test'' ''id0'')),
                 Emit (EvEnd [(''host0'', Replies [''test-response''])] None)],
      processed = [Frame ''ack'' ''host0'' '''', Frame ''data'' ''host0'' ''test-response'',
                   Frame ''end'' ''host0'' '''', Frame ''end'' ''host1'' '''']\<rparr>"
  by (simp add: example_completed_def example_request_def example_options_def example_defs requester_defs)

lemma example_unexpected_eq:
  "example_unexpected =
     \<lparr>closed = True, responses = [(''host2'', Replies [])],
      expecting = [(''host1'', Index 1), (''host2'', JTrue)],
      start = 1000, lastMessage = 1002, connect = 10, idle = 100,
      channelIn = ReplyChannel ''test'' ''id0'', channelOut = RequestChannel ''test'',
      message_out = RequestMessage ''id0'' ''host0'' ''test-request'',
      nextTick = False, timeoutInterval = False, listening = False, onData = True, sending = False,
      closing = None,
      history = [Do SetInterval, Do (Listen (ReplyChannel ''test'' ''id0'')),
                 Do (OnData (ReplyChannel ''test'' ''id0'')),
                 Do (Send (RequestChannel ''test'') (RequestMessage ''id0'' ''host0'' ''test-request'')),
                 Emit (EvAck ''host2''), Emit (EvHostEnd ''host0'' None), Do ClearInterval,
                 Do (Close (ReplyChannel ''test'' ''id0'')),
                 Emit (EvEnd [(''host2'', Replies [])] (Some [''host1'', ''host2'']))],
      processed = [Frame ''ack'' ''host2'' '''', Frame ''end'' ''host0'' '''']\<rparr>"
  by (simp add: example_unexpected_def example_request_def example_options_def example_defs requester_defs)

text \<open>
  Hosts named like members of \<open>Object.prototype\<close>: an \<open>ack\<close> of \<open>__proto__\<close> adds nothing
  to \<open>expecting\<close> or \<open>responses\<close>, a \<open>data\<close> frame of \<open>constructor\<close> stores the inherited
  member and throws before the host is marked as expected, and an \<open>expect\<close> of
  \<open>__proto__\<close> alone starts with an empty \<open>expecting\<close>.
\<close>

lemma example_prototype_names:
  "expecting (run example_open [Data 1001 (Frame ''ack'' ''__proto__'' '''')]) = expecting example_open
   \<and> responses (run example_open [Data 1001 (Frame ''ack'' ''__proto__'' '''')]) = []
   \<and> history (run example_open [Data 1001 (Frame ''data'' ''constructor'' ''x'')]) =
        history example_open @ [Throw]
   \<and> responses (run example_open [Data 1001 (Frame ''data'' ''constructor'' ''x'')]) =
        [(''constructor'', Member ''constructor'')]
   \<and> expecting (run example_open [Data 1001 (Frame ''data'' ''constructor'' ''x'')]) =
        expecting example_open
   \<and> invert [''__proto__''] = []"
  by (simp add: example_open_eq example_defs requester_defs)

subsection \<open>The listener's operations\<close>

lemmas listener_defs = end_reply_def end_sent_def end_closed_def end_call_def publish_def effect_def
  reply_def

section \<open>The claims\<close>

text \<open>
  C1. Every run of a conversation created by \<open>request\<close> has at most one terminal event
  (\<open>end\<close> or \<open>error\<close>), and nothing at all happens after it: it is the last entry of the
  history. Teardown (clearing the interval and closing the reply channel) happens at most
  once, and when a terminal event has been emitted with a non-empty \<open>expect\<close> the teardown
  lies before it (with an empty \<open>expect\<close> there is no teardown). A frame that arrives once
  \<open>closed\<close> is set leaves the whole state as it is. The terminal event is there exactly
  once as soon as no next tick, interval or \<open>close\<close> callback is outstanding, and from any
  point of a run the next tick, one late firing of the interval and the callback of
  \<open>close\<close> lead to it.
\<close>

theorem one_terminal_event:
  "let s = run (request hosts self rnd now name data opts) ins;
       E = expect_or_hosts opts hosts;
       teardown = [Do ClearInterval, Do (Close (ReplyChannel name rnd))]
   in length (filter terminal (history s)) \<le> 1
    \<and> filter terminal (butlast (history s)) = []
    \<and> filter teardown_action (history s) = (if E \<noteq> [] \<and> closed s then teardown else [])
    \<and> (filter terminal (history s) \<noteq> [] \<longrightarrow>
         filter teardown_action (butlast (history s)) = (if E = [] then [] else teardown))
    \<and> (closed s \<longrightarrow> step s (Data t m) = s)
    \<and> (\<not> nextTick s \<and> \<not> timeoutInterval s \<and> closing s = None \<longrightarrow>
         length (filter terminal (history s)) = 1)
    \<and> length (filter terminal (history (run s
         [NextTick, Interval (Suc (start s + connect s + lastMessage s + idle s)), Closed None]))) = 1"
proof -
  define s where "s = run (request hosts self rnd now name data opts) ins"
  have ok: "stage_ok (expect_or_hosts opts hosts) s"
    unfolding s_def by (rule stage_ok_run)
  have ch: "channelIn s = ReplyChannel name rnd"
    unfolding s_def by (simp add: channelIn_run request_def Let_def perform_def)
  show ?thesis
    unfolding Let_def s_def [symmetric]
    using stage_terminal_once [OF ok] stage_terminal_last [OF ok] stage_teardown_once [OF ok]
      stage_teardown_first [OF ok] stage_over [OF ok] stage_ends [OF ok] closed_ignores_frame [of s t m]
    by (simp add: ch)
qed

theorem one_terminal_event_witness:
  "closed example_completed \<and> \<not> nextTick example_completed
   \<and> \<not> timeoutInterval example_completed \<and> closing example_completed = None
   \<and> filter terminal (history example_completed) = [Emit (EvEnd [(''host0'', Replies [''test-response''])] None)]
   \<and> last (history example_completed) = Emit (EvEnd [(''host0'', Replies [''test-response''])] None)
   \<and> filter teardown_action (butlast (history example_completed)) =
        [Do ClearInterval, Do (Close (ReplyChannel ''test'' ''id0''))]
   \<and> step example_completed (Data 1005 (Frame ''data'' ''host0'' ''late'')) = example_completed"
  using one_terminal_event [of "[]" "''host0''" "''id0''" 1000 "''test''" "''test-request''"
      example_options
      "[Listening None, Sent None, Data 1001 (Frame ''ack'' ''host0'' ''''),
        Data 1002 (Frame ''data'' ''host0'' ''test-response''),
        Data 1003 (Frame ''end'' ''host0'' ''''), Data 1004 (Frame ''end'' ''host1'' ''''),
        Closed None]"
      1005 "Frame ''data'' ''host0'' ''late''",
      folded example_request_def, folded example_completed_def]
  by (simp add: example_completed_eq step_def data_handler_def)

text \<open>
  C2, amended. When both the publish of the end frame and the close of the reply channel
  report errors, \<open>end(callback)\<close> logs both as warnings and calls the callback with the
  error of the close, the last error encountered: the error of the publish is overwritten.
\<close>

theorem end_reports_last_error:
  "effects (end_reply (Some e1) (Some e2) c) =
     effects c @ [Publish (EndFrame (host_out c)) True, Log LogWarn e1 end_send_warning, CloseOut,
                  Log LogWarn e2 end_close_warning, Callback (Some e2)]"
  by (simp add: listener_defs)

theorem end_reports_last_error_witness:
  "effects (end_reply (Some (Error ''publish failed'')) (Some (Error ''close failed'')) example_channel) =
     [Publish (EndFrame ''host0'') True, Log LogWarn (Error ''publish failed'') end_send_warning,
      CloseOut, Log LogWarn (Error ''close failed'') end_close_warning,
      Callback (Some (Error ''close failed''))]"
  using end_reports_last_error [of "Error ''publish failed''" "Error ''close failed''" example_channel]
  by (simp add: example_channel_def)

theorem end_first_error_counterexample:
  "last (effects (end_reply (Some (Error ''publish failed'')) (Some (Error ''close failed''))
           example_channel)) = Callback (Some (Error ''close failed''))
   \<and> Callback (Some (Error ''publish failed''))
       \<notin> set (effects (end_reply (Some (Error ''publish failed'')) (Some (Error ''close failed''))
                  example_channel))"
  by (simp add: listener_defs example_channel_def)

text \<open>
  C3, amended. When \<open>expect\<close> is empty (given empty, or absent with no host present),
  \<open>request\<close> returns before anything is emitted, and the next tick emits \<open>end({})\<close>: the
  empty responses object and no second argument. Nothing else is ever emitted, and the
  conversation performs no action at all: no subscribe, no publish, no timer.
\<close>

theorem empty_expect_ends_next_tick:
  assumes "expect_or_hosts opts hosts = []"
  shows "history (request hosts self rnd now name data opts) = []
       \<and> history (step (request hosts self rnd now name data opts) NextTick) = [Emit (EvEnd [] None)]
       \<and> actions (run (request hosts self rnd now name data opts) ins) = []
       \<and> events (run (request hosts self rnd now name data opts) ins) =
           (if nextTick (run (request hosts self rnd now name data opts) ins) then []
            else [EvEnd [] None])"
proof -
  have "stage_ok [] (run (request hosts self rnd now name data opts) ins)"
    using stage_ok_run [of opts hosts self rnd now name data ins] assms by simp
  then have "actions (run (request hosts self rnd now name data opts) ins) = []
       \<and> events (run (request hosts self rnd now name data opts) ins) =
           (if nextTick (run (request hosts self rnd now name data opts) ins) then []
            else [EvEnd [] None])"
    by (auto simp: stage_ok_def actions_def events_def split: if_splits)
  moreover have "history (request hosts self rnd now name data opts) = []
       \<and> history (step (request hosts self rnd now name data opts) NextTick) = [Emit (EvEnd [] None)]"
    using assms by (simp add: request_def Let_def step_def nextTick_callback_def emit_def)
  ultimately show ?thesis by simp
qed

theorem empty_expect_ends_next_tick_witness:
  "expect_or_hosts (example_options\<lparr>expect := Some []\<rparr>) [] = []
   \<and> history example_empty = []
   \<and> history (step example_empty NextTick) = [Emit (EvEnd [] None)]
   \<and> actions (run example_empty [NextTick, Interval 7000, Data 7001 (Frame ''ack'' ''host0'' '''')]) = []
   \<and> events (run example_empty [NextTick, Interval 7000, Data 7001 (Frame ''ack'' ''host0'' '''')])
        = [EvEnd [] None]"
  using empty_expect_ends_next_tick [of "example_options\<lparr>expect := Some []\<rparr>" "[]" "''host0''"
      "''id0''" 1000 "''test''" "''test-request''"
      "[NextTick, Interval 7000, Data 7001 (Frame ''ack'' ''host0'' '''')]",
      folded example_empty_def]
  by (simp add: example_empty_def example_options_def example_defs requester_defs)

theorem empty_expect_end_counterexample:
  "events (run example_empty [NextTick]) = [EvEnd [] None]
   \<and> EvEnd [] (Some []) \<notin> set (events (run example_empty [NextTick]))"
  by (simp add: example_empty_def example_options_def example_defs requester_defs)

text \<open>
  C4, amended. When the requester terminates because the subscribe to the reply channel or
  the publish of the request failed, the \<open>error\<close> event it emits carries one argument, the
  error; the list of hosts still expected is not passed.
\<close>

theorem fatal_error_event:
  assumes "\<not> closed s"
  shows "(listening s \<longrightarrow>
           events (run s [Listening (Some e), Closed err]) = events s @ [EvError e None])
       \<and> (sending s \<longrightarrow>
           events (run s [Sent (Some e), Closed err]) = events s @ [EvError e None])"
  using assms by (simp add: requester_defs)

theorem fatal_error_event_witness:
  "\<not> closed example_request \<and> listening example_request
   \<and> events (run example_request [Listening (Some (Error ''subscribe failed'')), Closed None])
       = [EvError (Error ''subscribe failed'') None]
   \<and> \<not> closed (run example_request [Listening None])
   \<and> sending (run example_request [Listening None])
   \<and> events (run (run example_request [Listening None])
                [Sent (Some (Error ''publish failed'')), Closed None])
       = [EvError (Error ''publish failed'') None]"
  using fatal_error_event [of example_request "Error ''subscribe failed''" None]
    fatal_error_event [of "run example_request [Listening None]" "Error ''publish failed''" None]
  by (simp add: example_request_def example_options_def example_defs requester_defs)

theorem fatal_error_event_counterexample:
  "events (run example_request [Listening (Some (Error ''subscribe failed'')), Closed None])
      = [EvError (Error ''subscribe failed'') None]
   \<and> events (run example_request [Listening None, Sent (Some (Error ''publish failed'')), Closed None])
      = [EvError (Error ''publish failed'') None]
   \<and> EvError (Error ''subscribe failed'') (Some [''host0'', ''host1''])
       \<notin> set (events (run example_request [Listening (Some (Error ''subscribe failed'')), Closed None]))"
  by (simp add: example_request_def example_options_def example_defs requester_defs example_open_eq)

text \<open>
  C5. Whenever the interval callback finds a timeout (connect: no frame yet and
  \<open>now > start + connect\<close>; idle: \<open>now > lastMessage + idle\<close>), it tears down, and the
  callback of \<open>close\<close> emits the terminal event chosen by \<open>responses\<close> alone: \<open>error\<close>
  with \<open>_.keys(expecting)\<close> as second argument when \<open>responses\<close> is empty, otherwise
  \<open>end(responses, _.keys(expecting))\<close>. Which of the two timeouts it was shows in the
  message of the error only.
\<close>

theorem timeout_outcome:
  assumes "timeoutInterval s" and "\<not> closed s"
    and "if lastMessage s = 0 then now > start s + connect s else now > lastMessage s + idle s"
  shows "history (run s [Interval now, Closed err]) =
           history s @ [Do ClearInterval, Do (Close (channelIn s)),
             Emit (if obj_isEmpty (responses s)
                   then EvError (Error (if lastMessage s = 0 then connect_message (connect s)
                                        else idle_message (idle s)))
                          (Some (obj_keys (expecting s)))
                   else EvEnd (responses s) (Some (obj_keys (expecting s))))]"
  using assms by (simp add: requester_defs split: if_splits)

theorem timeout_outcome_witness:
  "timeoutInterval (run example_open [Data 1001 (Frame ''ack'' ''host0'' '''')])
   \<and> \<not> closed (run example_open [Data 1001 (Frame ''ack'' ''host0'' '''')])
   \<and> lastMessage (run example_open [Data 1001 (Frame ''ack'' ''host0'' '''')]) = 1001
   \<and> idle (run example_open [Data 1001 (Frame ''ack'' ''host0'' '''')]) = 100
   \<and> history (run (run example_open [Data 1001 (Frame ''ack'' ''host0'' '''')])
               [Interval 1102, Closed None]) =
        history (run example_open [Data 1001 (Frame ''ack'' ''host0'' '''')])
        @ [Do ClearInterval, Do (Close (ReplyChannel ''test'' ''id0'')),
           Emit (EvEnd [(''host0'', Replies [])] (Some [''host0'', ''host1'']))]"
  using timeout_outcome [of "run example_open [Data 1001 (Frame ''ack'' ''host0'' '''')]" 1102 None]
  by (simp add: example_open_eq example_defs requester_defs)

text \<open>
  C6. In a conversation created by \<open>request\<close>, a connect timeout that finds \<open>responses\<close>
  empty emits an error whose message is exactly
  \<open>Did not receive a message within the connect timeout interval of <connect>ms\<close>, and an
  idle timeout that finds \<open>responses\<close> empty emits one whose message is exactly
  \<open>Did not receive a message with the idle timeout interval of <idle>ms\<close> (with, not
  within), where \<open><connect>\<close> and \<open><idle>\<close> are the decimal numerals of
  \<open>options.timeout.connect\<close> and \<open>options.timeout.idle\<close> (5000 when absent or zero).
\<close>

theorem timeout_messages:
  assumes "s = run (request hosts self rnd t0 name data opts) ins"
    and "timeoutInterval s" and "\<not> closed s" and "obj_isEmpty (responses s)"
  shows "(lastMessage s = 0 \<and> now > start s + connect s \<longrightarrow>
           events (run s [Interval now, Closed err]) =
             events s @ [EvError (Error
               (''Did not receive a message within the connect timeout interval of ''
                @ format_s (or_default (timeout_connect opts) 5000) @ ''ms''))
               (Some (obj_keys (expecting s)))])
       \<and> (lastMessage s \<noteq> 0 \<and> now > lastMessage s + idle s \<longrightarrow>
           events (run s [Interval now, Closed err]) =
             events s @ [EvError (Error
               (''Did not receive a message with the idle timeout interval of ''
                @ format_s (or_default (timeout_idle opts) 5000) @ ''ms''))
               (Some (obj_keys (expecting s)))])"
proof -
  have "connect s = or_default (timeout_connect opts) 5000"
    and "idle s = or_default (timeout_idle opts) 5000"
    using assms(1) by (simp_all add: timeouts_run timeouts_request)
  then show ?thesis
    using assms(2-4)
    by (simp add: requester_defs connect_message_def idle_message_def)
qed

theorem timeout_messages_witness:
  "events (run example_open [Interval 1011, Closed None]) =
     [EvError (Error ''Did not receive a message within the connect timeout interval of 10ms'')
        (Some [''host0'', ''host1''])]
   \<and> events (run (run example_open [Data 1001 (Frame ''end'' ''host0'' '''')])
               [Interval 1102, Closed None]) =
     [EvHostEnd ''host0'' None,
      EvError (Error ''Did not receive a message with the idle timeout interval of 100ms'')
        (Some [''host1''])]"
  using timeout_messages [OF example_open_run, of 1011 None]
    timeout_messages [OF example_open_run_snoc, of "Data 1001 (Frame ''end'' ''host0'' '''')" 1102 None]
  by (simp add: example_open_eq example_options_def example_defs requester_defs
      format_s_10 format_s_100)

text \<open>
  C7. \<open>end()\<close> sets \<open>closed\<close> before it hands the end frame to \<open>send\<close>: the frame is
  published with \<open>closed\<close> already true. Every \<open>reply(body, callback)\<close> made while
  \<open>closed\<close> is true, also one made right after the call of \<open>end\<close> and before its publish
  has completed, publishes nothing: it logs the after-end error and passes it to the
  callback (to the empty function when no callback was given); only a callback that is
  not a function makes it throw the invalid-argument error instead, as it does on an open
  channel.
\<close>

theorem end_closes_first_reply_rejected:
  "closed_out (end_call c)
   \<and> effects (end_call c) = effects c @ [Publish (EndFrame (host_out c)) True]
   \<and> (closed_out c \<longrightarrow>
        reply replyData callback c =
          (if callback = NotFunction then Inl invalid_argument
           else Inr (c\<lparr>effects := effects c @ [Log LogError after_end after_end_log,
                                                Callback (Some after_end)]\<rparr>)))
   \<and> reply replyData callback (end_call c) =
          (if callback = NotFunction then Inl invalid_argument
           else Inr ((end_call c)\<lparr>effects := effects (end_call c)
                        @ [Log LogError after_end after_end_log, Callback (Some after_end)]\<rparr>))"
  by (simp add: listener_defs)

theorem end_closes_first_reply_rejected_witness:
  "closed_out example_ended
   \<and> reply ''second'' Function example_ended =
        Inr \<lparr>closed_out = True, host_out = ''host0'',
             effects = [Publish (EndFrame ''host0'') True, CloseOut, Callback None,
                        Log LogError after_end after_end_log, Callback (Some after_end)]\<rparr>"
  using end_closes_first_reply_rejected [of example_ended "''second''" Function]
  by (simp add: example_ended_def example_channel_def listener_defs)

text \<open>
  C8, amended. In every run of a requester and for every host \<open>H\<close> whose name is not the
  name of a member of \<open>Object.prototype\<close>, \<open>H\<close> is among \<open>_.keys(expecting)\<close>, and so in the
  list of hosts that a terminal event reports, if and only if either no \<open>ack\<close>, \<open>data\<close> or
  \<open>end\<close> frame of \<open>H\<close> was processed and \<open>H\<close> was in the initial \<open>expect\<close>, or the latest
  such frame of \<open>H\<close> is an \<open>ack\<close> or a \<open>data\<close> frame: an \<open>end\<close> frame takes \<open>H\<close> out only
  until its next \<open>ack\<close> or \<open>data\<close> frame. A host that acknowledges without being expected
  is added, and an \<open>end\<close> event without a list of hosts is emitted only when no host is
  awaited. The frames of the other hosts, whatever their names, do not matter.
\<close>

theorem expecting_at_termination:
  assumes "H \<notin> set prototype_names"
  shows "(H \<in> set (obj_keys (expecting (run (request hosts self rnd now name data opts) ins)))) =
      still_expected (expect_or_hosts opts hosts)
        (processed (run (request hosts self rnd now name data opts) ins)) H
   \<and> (Emit (EvEnd r (Some ks)) \<in> set (history (run (request hosts self rnd now name data opts) ins))
        \<or> Emit (EvError e (Some ks)) \<in> set (history (run (request hosts self rnd now name data opts) ins))
       \<longrightarrow> (H \<in> set ks) =
             still_expected (expect_or_hosts opts hosts)
               (processed (run (request hosts self rnd now name data opts) ins)) H)
   \<and> (Emit (EvEnd r None) \<in> set (history (run (request hosts self rnd now name data opts) ins))
       \<longrightarrow> \<not> still_expected (expect_or_hosts opts hosts)
               (processed (run (request hosts self rnd now name data opts) ins)) H)"
proof -
  define s where "s = run (request hosts self rnd now name data opts) ins"
  define E where "E = expect_or_hosts opts hosts"
  have "expecting_ok E s"
    unfolding s_def E_def by (rule expecting_ok_run)
  then have keys: "(H \<in> fst ` set (expecting s)) = still_expected E (processed s) H"
    and rep: "list_all (reported (expecting s)) (history s)"
    using assms by (simp_all add: expecting_ok_def)
  have 1: "(H \<in> set (obj_keys (expecting s))) = still_expected E (processed s) H"
    using keys by (simp add: set_obj_keys)
  have 2: "(H \<in> set ks) = still_expected E (processed s) H"
    if "Emit (EvEnd r (Some ks)) \<in> set (history s) \<or> Emit (EvError e (Some ks)) \<in> set (history s)"
    using that 1 reported_end_keys [OF rep] reported_error_keys [OF rep] by blast
  have 3: "\<not> still_expected E (processed s) H" if "Emit (EvEnd r None) \<in> set (history s)"
    using that keys reported_end_empty [OF rep] by fastforce
  show ?thesis
    unfolding s_def [symmetric] E_def [symmetric] using 1 2 3 by blast
qed

theorem expecting_at_termination_witness:
  "''host2'' \<notin> set prototype_names
   \<and> Emit (EvEnd [(''host2'', Replies [])] (Some [''host1'', ''host2''])) \<in> set (history example_unexpected)
   \<and> processed example_unexpected = [Frame ''ack'' ''host2'' '''', Frame ''end'' ''host0'' '''']
   \<and> ''host2'' \<in> set [''host1'', ''host2'']
   \<and> still_expected [''host0'', ''host1''] (processed example_unexpected) ''host2''"
  using expecting_at_termination [of "''host2''" "[]" "''host0''" "''id0''" 1000 "''test''"
      "''test-request''" example_options
      "[Listening None, Sent None, Data 1001 (Frame ''ack'' ''host2'' ''''),
        Data 1002 (Frame ''end'' ''host0'' ''''), Interval 1200, Closed None]"
      "[(''host2'', Replies [])]" "[''host1'', ''host2'']" "Error ''none''",
      folded example_request_def, folded example_unexpected_def]
  by (simp add: example_unexpected_eq example_options_def expect_or_hosts_def prototype_names_def)

theorem expecting_after_end_counterexample:
  "last (history (run example_open
       [Data 1001 (Frame ''ack'' ''host1'' ''''), Data 1002 (Frame ''end'' ''host1'' ''''),
        Data 1003 (Frame ''data'' ''host1'' ''more''), Interval 1200, Closed None]))
     = Emit (EvEnd [(''host1'', Replies [''more''])] (Some [''host0'', ''host1'']))
   \<and> \<not> expected_never_ended [''host0'', ''host1'']
        (processed (run example_open
          [Data 1001 (Frame ''ack'' ''host1'' ''''), Data 1002 (Frame ''end'' ''host1'' ''''),
           Data 1003 (Frame ''data'' ''host1'' ''more''), Interval 1200, Closed None])) ''host1''"
  by (simp add: example_open_eq requester_defs example_defs expected_never_ended_def)

text \<open>
  C9. When the callback of \<open>listen\<close> gets an error while the conversation is not closed, it
  tears down with the callback that emits \<open>error(err)\<close>, and then goes on past the error
  branch: it registers the \<open>'data'\<close> handler and publishes the request frame. Whatever the
  publish then reports changes neither the history nor the outstanding callback of
  \<open>close\<close>, since \<open>_tearDown\<close> returns at once on a closed conversation; in either order of
  the two callbacks the one terminal event is the error of the subscribe.
\<close>

theorem listen_error_falls_through:
  assumes "listening s" and "\<not> closed s"
  shows "history (step s (Listening (Some e))) =
           history s @ [Do ClearInterval, Do (Close (channelIn s)),
                        Do (OnData (channelIn s)), Do (Send (channelOut s) (message_out s))]
       \<and> closed (step s (Listening (Some e)))
       \<and> onData (step s (Listening (Some e)))
       \<and> sending (step s (Listening (Some e)))
       \<and> closing (step s (Listening (Some e))) = Some (AfterListenError e)
       \<and> history (step (step s (Listening (Some e))) (Sent r)) = history (step s (Listening (Some e)))
       \<and> closing (step (step s (Listening (Some e))) (Sent r)) = Some (AfterListenError e)
       \<and> events (run s [Listening (Some e), Sent r, Closed c]) = events s @ [EvError e None]
       \<and> events (run s [Listening (Some e), Closed c, Sent r]) = events s @ [EvError e None]"
  using assms by (simp add: requester_defs split: option.splits)

theorem listen_error_falls_through_witness:
  "listening example_request \<and> \<not> closed example_request
   \<and> history (step example_request (Listening (Some (Error ''subscribe failed'')))) =
       [Do SetInterval, Do (Listen (ReplyChannel ''test'' ''id0'')),
        Do ClearInterval, Do (Close (ReplyChannel ''test'' ''id0'')),
        Do (OnData (ReplyChannel ''test'' ''id0'')),
        Do (Send (RequestChannel ''test'') (RequestMessage ''id0'' ''host0'' ''test-request''))]
   \<and> events (run example_request [Listening (Some (Error ''subscribe failed'')),
                Sent (Some (Error ''publish failed'')), Closed None]) =
       [EvError (Error ''subscribe failed'') None]"
  using listen_error_falls_through [of example_request "Error ''subscribe failed''"
      "Some (Error ''publish failed'')" None]
  by (simp add: example_request_def example_options_def example_defs requester_defs)

text \<open>
  C10. Every frame that the \<open>'data'\<close> handler gets while the conversation is not closed
  sets \<open>lastMessage\<close> to the current time, whatever its type. A frame whose type is none of
  \<open>ack\<close>, \<open>data\<close> and \<open>end\<close> changes nothing else: \<open>responses\<close>, \<open>expecting\<close> and the
  history stay as they are and no event is emitted. After a frame processed at time
  \<open>now > 0\<close> the interval callback finds no timeout up to time \<open>now + idle\<close>.
\<close>

theorem frame_updates_lastMessage:
  assumes "onData s" and "\<not> closed s"
  shows "lastMessage (step s (Data now m)) = now
       \<and> (mtype m \<notin> {''ack'', ''data'', ''end''} \<longrightarrow>
            step s (Data now m) = s\<lparr>lastMessage := now, processed := processed s @ [m]\<rparr>)
       \<and> (0 < now \<longrightarrow> now' \<le> now + idle s \<longrightarrow>
            step (step s (Data now m)) (Interval now') = step s (Data now m))"
  using assms by (simp add: requester_defs Let_def split: option.splits response.splits)

theorem frame_updates_lastMessage_witness:
  "onData example_open \<and> \<not> closed example_open \<and> lastMessage example_open = 0
   \<and> lastMessage (step example_open (Data 1001 (Frame ''ping'' ''host0'' ''''))) = 1001
   \<and> history (step example_open (Data 1001 (Frame ''ping'' ''host0'' ''''))) = history example_open
   \<and> responses (step example_open (Data 1001 (Frame ''ping'' ''host0'' ''''))) = []
   \<and> expecting (step example_open (Data 1001 (Frame ''ping'' ''host0'' ''''))) = expecting example_open
   \<and> step (step example_open (Data 1001 (Frame ''ping'' ''host0'' ''''))) (Interval 1101) =
       step example_open (Data 1001 (Frame ''ping'' ''host0'' ''''))"
  using frame_updates_lastMessage [of example_open 1001 "Frame ''ping'' ''host0'' ''''" 1101]
  by (simp add: example_open_eq requester_defs)

end
